theory Spec2Isabelle
  imports Main
begin

section \<open>Go values seen through reflection\<close>

text \<open>
  The container keys everything by \<open>reflect.Type\<close>. A type is modelled by the part of its
  description that the container reads: its kind, and for a struct its declared fields with
  the value of the \<open>fabric\<close> key of the field tag (the empty string when the key is absent)
  and whether the field is exported (\<open>CanSet\<close> on a field of a freshly allocated struct).
  \<open>typeKey[T]()\<close> is the type itself. Types are finite trees, so a struct type that
  mentions itself is outside the model.
\<close>

datatype gotype = TBasic string | TIface string | TPtr gotype | TStruct string "field list"
and field = Field (fname: string) (ftype: gotype) (fabric: string) (exported: bool)

text \<open>\<open>reflect.TypeOf(zero)\<close> for \<open>var zero T\<close>: nil when \<open>T\<close> is an interface type.\<close>

fun typeOfZero :: "gotype \<Rightarrow> gotype option" where
  "typeOfZero (TIface n) = None"
| "typeOfZero t = Some t"

text \<open>\<open>if t.Kind() == reflect.Ptr { t = t.Elem() }\<close>\<close>

fun derefPtr :: "gotype \<Rightarrow> gotype" where
  "derefPtr (TPtr t) = t"
| "derefPtr t = t"

text \<open>The declared fields when \<open>t.Kind() == reflect.Struct\<close>, otherwise nothing.\<close>

fun structFields :: "gotype \<Rightarrow> field list option" where
  "structFields (TStruct n fs) = Some fs"
| "structFields t = None"

text \<open>
  A value of type \<open>any\<close>: the nil interface, a pointer to a struct of the given type at an
  address, or a value of a non-interface type with a payload (payload 0 is the zero value).
  Two pointers are the same instance exactly when they are equal.
\<close>

datatype inst = Nil | Ref gotype nat | Val gotype nat

fun dynType :: "inst \<Rightarrow> gotype option" where
  "dynType Nil = None"
| "dynType (Ref t a) = Some (TPtr t)"
| "dynType (Val t p) = Some t"

fun zeroValue :: "gotype \<Rightarrow> inst" where
  "zeroValue (TIface n) = Nil"
| "zeroValue t = Val t 0"

text \<open>
  Errors. \<open>Errorf\<close> keeps the format string of the source (without its quote characters)
  and the arguments; \<open>AWrap\<close> is an argument formatted with \<open>%w\<close>, \<open>AErr\<close> one formatted
  with \<open>%s\<close>. \<open>Join\<close> is \<open>errors.Join\<close>.
\<close>

datatype err = Err string | Errorf string "arg list" | Join "err list"
and arg = AType gotype | AStr string | AErr err | AWrap err

text \<open>The result of a call: a value, a returned error, or a run-time panic.\<close>

datatype 'a outcome = Ok 'a | Error err | Panic string

text \<open>
  A log of the calls the container makes into user code, in order: a registration's factory
  (with the key it was looked up under), a middleware (its position in the chain, the key
  and the instance it is given), \<open>Init\<close> and \<open>Cleanup\<close> of a lifecycle service.
\<close>

datatype event = EvFactory gotype string | EvMiddleware nat gotype inst | EvInit inst | EvCleanup inst

section \<open>User code\<close>

text \<open>
  User code (factories given to \<open>AsFactory\<close>, middlewares, custom tag processors, \<open>Init\<close>
  and \<open>Cleanup\<close>) is embedded as transformers of a user state \<open>'u\<close>; it does not call back
  into the container. The method sets of the program's types are a parameter:
  \<open>implements E d i\<close> says that dynamic type \<open>d\<close> implements interface \<open>i\<close>, and
  \<open>isLifecycle E x\<close> that \<open>x.(LifecycleService)\<close> succeeds.
\<close>

record 'u env =
  implements :: "gotype \<Rightarrow> gotype \<Rightarrow> bool"
  isLifecycle :: "inst \<Rightarrow> bool"
  lcInit :: "inst \<Rightarrow> 'u \<Rightarrow> err option \<times> 'u"
  lcCleanup :: "inst \<Rightarrow> 'u \<Rightarrow> err option \<times> 'u"

text \<open>The type assertion \<open>x.(T)\<close>, also the assignability test of \<open>reflect.Value.Set\<close>.\<close>

definition assertType :: "'u env \<Rightarrow> inst \<Rightarrow> gotype \<Rightarrow> bool" where
  "assertType E x T =
     (case dynType x of
        None \<Rightarrow> False
      | Some d \<Rightarrow> (case T of TIface n \<Rightarrow> implements E d T | _ \<Rightarrow> d = T))"

text \<open>
  \<open>RegistrationFactory\<close>. The closures that the package itself builds are kept apart from
  the ones a user passes in: \<open>WithInstance\<close>'s constant closure, the default zero-value
  factory of \<open>Register\<close>, and \<open>createFabricTagFactory[T]()\<close>.
\<close>

datatype 'u factory =
    UserFactory "'u \<Rightarrow> (err + inst) \<times> 'u"
  | InstanceFactory inst
  | DefaultFactory gotype
  | FabricTagFactory gotype

type_synonym 'u middleware = "gotype \<Rightarrow> inst \<Rightarrow> 'u \<Rightarrow> (err + inst) \<times> 'u"

text \<open>\<open>TagProcessor\<close>: the default processor, or a user's one (priority, CanProcess, Process).\<close>

datatype 'u tagproc =
    InjectTagProcessor
  | CustomTagProcessor int "string \<Rightarrow> bool" "field \<Rightarrow> string \<Rightarrow> 'u \<Rightarrow> (err + inst) \<times> 'u"

section \<open>The container\<close>

record 'u registration =
  Name :: string
  IsSingleton :: bool
  Factory :: "'u factory option"
  Interfaces :: "(gotype \<times> string list) list"

record 'u container =
  services :: "gotype \<rightharpoonup> (string \<rightharpoonup> 'u registration)"
  singletons :: "gotype \<rightharpoonup> (string \<rightharpoonup> inst)"
  lifecycles :: "inst list"
  middlewares :: "'u middleware list"
  tagProcessor :: "'u tagproc list"

text \<open>
  The container together with what surrounds it: the structs allocated by \<open>reflect.New\<close>
  (address to field values, an absent field being zero), the next free address, the user
  state and the call log.
\<close>

record 'u world =
  sc :: "'u container"
  heap :: "nat \<rightharpoonup> (string \<rightharpoonup> inst)"
  nextAddr :: nat
  user :: 'u
  trace :: "event list"

type_synonym 'u RegistrationOption = "'u registration \<Rightarrow> err option \<times> 'u registration"

text \<open>How a factory is invoked: the recursion of nested resolution is passed in.\<close>

type_synonym 'u invoke = "'u factory \<Rightarrow> 'u world \<Rightarrow> (inst outcome \<times> 'u world) option"

subsection \<open>Strings (package strings, on ASCII)\<close>

definition upperLetters :: string where "upperLetters = ''ABCDEFGHIJKLMNOPQRSTUVWXYZ''"
definition lowerLetters :: string where "lowerLetters = ''abcdefghijklmnopqrstuvwxyz''"

definition toLowerChar :: "char \<Rightarrow> char" where
  "toLowerChar c = (case map_of (zip upperLetters lowerLetters) c of Some l \<Rightarrow> l | None \<Rightarrow> c)"

definition ToLower :: "string \<Rightarrow> string" where
  "ToLower s = map toLowerChar s"

definition EqualFold :: "string \<Rightarrow> string \<Rightarrow> bool" where
  "EqualFold s t = (ToLower s = ToLower t)"

definition HasPrefix :: "string \<Rightarrow> string \<Rightarrow> bool" where
  "HasPrefix s p = (take (length p) s = p)"

definition isSpace :: "char \<Rightarrow> bool" where
  "isSpace c = (c \<in> set [CHR '' '', CHR 0x09, CHR 0x0A, CHR 0x0B, CHR 0x0C, CHR 0x0D])"

definition TrimSpace :: "string \<Rightarrow> string" where
  "TrimSpace s = rev (dropWhile isSpace (rev (dropWhile isSpace s)))"

subsection \<open>errors.go\<close>

text \<open>\<open>Errors.Add\<close>: nil errors are ignored.\<close>

fun Add :: "err option \<Rightarrow> err list \<Rightarrow> err list" where
  "Add None errors = errors"
| "Add (Some e) errors = errors @ [e]"

text \<open>\<open>Errors.Errors\<close>: nil when nothing was added, the joined error otherwise.\<close>

definition Errors :: "err list \<Rightarrow> err option" where
  "Errors errors = (if length errors = 0 then None else Some (Join errors))"

subsection \<open>service.go\<close>

definition defaultRegistrationOptions :: "'u registration" where
  "defaultRegistrationOptions = \<lparr>Name = '''', IsSingleton = False, Factory = None, Interfaces = []\<rparr>"

definition AsSingleton :: "'u RegistrationOption" where
  "AsSingleton rs = (None, rs\<lparr>IsSingleton := True\<rparr>)"

definition AsFactory :: "('u \<Rightarrow> (err + inst) \<times> 'u) \<Rightarrow> 'u RegistrationOption" where
  "AsFactory g rs = (None, rs\<lparr>Factory := Some (UserFactory g)\<rparr>)"

definition WithInstance :: "inst \<Rightarrow> 'u RegistrationOption" where
  "WithInstance x rs = (None, rs\<lparr>Factory := Some (InstanceFactory x)\<rparr>)"

text \<open>
  \<open>rs.Interfaces[ifaceType] = append(rs.Interfaces[ifaceType], name)\<close>, the map kept as an
  association list with one entry per interface type.
\<close>

definition appendName :: "gotype \<Rightarrow> string \<Rightarrow> (gotype \<times> string list) list \<Rightarrow> (gotype \<times> string list) list" where
  "appendName ifaceType name ifs =
     (case map_of ifs ifaceType of
        None \<Rightarrow> ifs @ [(ifaceType, [name])]
      | Some ns \<Rightarrow> map (\<lambda>(k, v). if k = ifaceType then (k, v @ [name]) else (k, v)) ifs)"

definition With :: "gotype \<Rightarrow> 'u RegistrationOption" where
  "With ifaceType rs = (None, rs\<lparr>Interfaces := appendName ifaceType '''' (Interfaces rs)\<rparr>)"

definition WithName :: "gotype \<Rightarrow> string \<Rightarrow> 'u RegistrationOption" where
  "WithName ifaceType name rs = (None, rs\<lparr>Interfaces := appendName ifaceType name (Interfaces rs)\<rparr>)"

subsection \<open>Tag processors\<close>

fun GetPriority :: "'u tagproc \<Rightarrow> int" where
  "GetPriority InjectTagProcessor = 0"
| "GetPriority (CustomTagProcessor p can run) = p"

fun CanProcess :: "'u tagproc \<Rightarrow> string \<Rightarrow> bool" where
  "CanProcess InjectTagProcessor v = (EqualFold v ''inject'' \<or> HasPrefix (ToLower v) ''inject:'')"
| "CanProcess (CustomTagProcessor p can run) v = can v"

fun hasProcessorFor :: "'u tagproc list \<Rightarrow> string \<Rightarrow> bool" where
  "hasProcessorFor [] v = False"
| "hasProcessorFor (p # ps) v = (if CanProcess p v then True else hasProcessorFor ps v)"

subsection \<open>tags.go\<close>

fun anyInjectTag :: "field list \<Rightarrow> bool" where
  "anyInjectTag [] = False"
| "anyInjectTag (f # fs) = (if fabric f = ''inject'' then True else anyInjectTag fs)"

definition hasFabricTags :: "gotype \<Rightarrow> bool" where
  "hasFabricTags T =
     (case typeOfZero T of
        None \<Rightarrow> False
      | Some t \<Rightarrow> (case structFields (derefPtr t) of None \<Rightarrow> False | Some fs \<Rightarrow> anyInjectTag fs))"

fun validateFields :: "'u tagproc list \<Rightarrow> field list \<Rightarrow> bool outcome" where
  "validateFields procs [] = Ok True"
| "validateFields procs (f # fs) =
     (if fabric f \<noteq> '''' \<and> \<not> hasProcessorFor procs (fabric f)
      then Error (Errorf ''no processor registered for fabric tag %s on field %s'' [AStr (fabric f), AStr (fname f)])
      else validateFields procs fs)"

text \<open>\<open>(true, nil)\<close> is \<open>Ok True\<close>, \<open>(false, nil)\<close> is \<open>Ok False\<close>, \<open>(false, err)\<close> is \<open>Error err\<close>.\<close>

definition validateFabricTags :: "gotype \<Rightarrow> 'u tagproc list \<Rightarrow> bool outcome" where
  "validateFabricTags T procs =
     (case typeOfZero T of
        None \<Rightarrow> Panic ''nil pointer dereference''
      | Some t \<Rightarrow> (case structFields (derefPtr t) of None \<Rightarrow> Ok False | Some fs \<Rightarrow> validateFields procs fs))"

subsection \<open>Register\<close>

fun applyOptions :: "'u RegistrationOption list \<Rightarrow> 'u registration \<Rightarrow> err + 'u registration" where
  "applyOptions [] options = Inr options"
| "applyOptions (opt # opts) options =
     (case opt options of
        (Some e, options') \<Rightarrow> Inl (Errorf ''failed to complete registration: %w'' [AWrap e])
      | (None, options') \<Rightarrow> applyOptions opts options')"

text \<open>\<open>maps, exists := sc.services[key]; if !exists { maps = make(...) }; maps[name] = options\<close>\<close>

definition storeService ::
  "gotype \<Rightarrow> string \<Rightarrow> 'u registration \<Rightarrow> (gotype \<rightharpoonup> (string \<rightharpoonup> 'u registration)) \<Rightarrow> (gotype \<rightharpoonup> (string \<rightharpoonup> 'u registration))" where
  "storeService key name options svcs =
     (case svcs key of
        None \<Rightarrow> svcs(key \<mapsto> Map.empty(name \<mapsto> options))
      | Some maps \<Rightarrow> svcs(key \<mapsto> maps(name \<mapsto> options)))"

fun storeNames ::
  "gotype \<Rightarrow> string list \<Rightarrow> 'u registration \<Rightarrow> (gotype \<rightharpoonup> (string \<rightharpoonup> 'u registration)) \<Rightarrow> (gotype \<rightharpoonup> (string \<rightharpoonup> 'u registration))" where
  "storeNames ifaceType [] options svcs = svcs"
| "storeNames ifaceType (name # names) options svcs =
     storeNames ifaceType names options (storeService ifaceType name options svcs)"

text \<open>
  The loop over \<open>options.Interfaces\<close>. An interface type with no entry yet gets its inner
  map even when its list of names is empty.
\<close>

fun storeInterfaces ::
  "(gotype \<times> string list) list \<Rightarrow> 'u registration \<Rightarrow> (gotype \<rightharpoonup> (string \<rightharpoonup> 'u registration)) \<Rightarrow> (gotype \<rightharpoonup> (string \<rightharpoonup> 'u registration))" where
  "storeInterfaces [] options svcs = svcs"
| "storeInterfaces ((ifaceType, names) # rest) options svcs =
     storeInterfaces rest options
       (storeNames ifaceType names options
          (case svcs ifaceType of None \<Rightarrow> svcs(ifaceType \<mapsto> Map.empty) | Some m \<Rightarrow> svcs))"

text \<open>The factory \<open>Register\<close> ends up with: the one of the options, or a synthesized one.\<close>

definition chooseFactory :: "gotype \<Rightarrow> 'u tagproc list \<Rightarrow> 'u registration \<Rightarrow> 'u factory outcome" where
  "chooseFactory T procs options =
     (case Factory options of
        Some f \<Rightarrow> Ok f
      | None \<Rightarrow>
          if hasFabricTags T then
            (case validateFabricTags T procs of
               Error e \<Rightarrow> Error (Errorf ''failed to validate fabric tags: %w'' [AWrap e])
             | Panic p \<Rightarrow> Panic p
             | Ok ok \<Rightarrow>
                 if \<not> ok then Error (Errorf ''no valid factory found during registration'' [])
                 else Ok (FabricTagFactory T))
          else Ok (DefaultFactory T))"

definition Register :: "gotype \<Rightarrow> 'u RegistrationOption list \<Rightarrow> 'u world \<Rightarrow> unit outcome \<times> 'u world" where
  "Register T opts w =
     (case applyOptions opts defaultRegistrationOptions of
        Inl e \<Rightarrow> (Error e, w)
      | Inr options0 \<Rightarrow>
          (case chooseFactory T (tagProcessor (sc w)) options0 of
             Error e \<Rightarrow> (Error e, w)
           | Panic p \<Rightarrow> (Panic p, w)
           | Ok f \<Rightarrow>
               let options = options0\<lparr>Factory := Some f\<rparr>;
                   svcs = storeService T (Name options) options (services (sc w))
               in (Ok (), w\<lparr>sc := (sc w)\<lparr>services := storeInterfaces (Interfaces options) options svcs\<rparr>\<rparr>)))"

subsection \<open>container.go\<close>

text \<open>
  \<open>registerProcessor\<close> appends and sorts by descending priority. \<open>sort.Slice\<close> leaves the
  order of processors of equal priority open; here a new processor goes behind the ones
  of its priority.
\<close>

fun insertProcessor :: "'u tagproc \<Rightarrow> 'u tagproc list \<Rightarrow> 'u tagproc list" where
  "insertProcessor p [] = [p]"
| "insertProcessor p (q # qs) =
     (if GetPriority p > GetPriority q then p # q # qs else q # insertProcessor p qs)"

definition AddTagProcessor :: "'u tagproc list \<Rightarrow> 'u world \<Rightarrow> 'u world" where
  "AddTagProcessor ps w = w\<lparr>sc := (sc w)\<lparr>tagProcessor := foldl (\<lambda>qs p. insertProcessor p qs) (tagProcessor (sc w)) ps\<rparr>\<rparr>"

definition AddMiddleware :: "'u middleware list \<Rightarrow> 'u world \<Rightarrow> 'u world" where
  "AddMiddleware ms w = w\<lparr>sc := (sc w)\<lparr>middlewares := middlewares (sc w) @ ms\<rparr>\<rparr>"

definition NewServiceContainer :: "'u container" where
  "NewServiceContainer =
     \<lparr>services = Map.empty, singletons = Map.empty, lifecycles = [], middlewares = [],
      tagProcessor = [InjectTagProcessor]\<rparr>"

definition newWorld :: "'u \<Rightarrow> 'u world" where
  "newWorld u = \<lparr>sc = NewServiceContainer, heap = Map.empty, nextAddr = 0, user = u, trace = []\<rparr>"

text \<open>\<open>sc.singletons[key][name]\<close> with both existence tests.\<close>

definition lookupSingleton :: "(gotype \<rightharpoonup> (string \<rightharpoonup> inst)) \<Rightarrow> gotype \<Rightarrow> string \<Rightarrow> inst option" where
  "lookupSingleton sg key name = (case sg key of None \<Rightarrow> None | Some singletonsMaps \<Rightarrow> singletonsMaps name)"

definition storeSingleton :: "gotype \<Rightarrow> string \<Rightarrow> inst \<Rightarrow> (gotype \<rightharpoonup> (string \<rightharpoonup> inst)) \<Rightarrow> (gotype \<rightharpoonup> (string \<rightharpoonup> inst))" where
  "storeSingleton key name x sg =
     (case sg key of
        Some singletonsMaps \<Rightarrow> sg(key \<mapsto> singletonsMaps(name \<mapsto> x))
      | None \<Rightarrow> sg(key \<mapsto> Map.empty(name \<mapsto> x)))"

definition cacheSingleton :: "gotype \<Rightarrow> string \<Rightarrow> inst \<Rightarrow> 'u world \<Rightarrow> 'u world" where
  "cacheSingleton key name x w = w\<lparr>sc := (sc w)\<lparr>singletons := storeSingleton key name x (singletons (sc w))\<rparr>\<rparr>"

definition logEvent :: "event \<Rightarrow> 'u world \<Rightarrow> 'u world" where
  "logEvent ev w = w\<lparr>trace := trace w @ [ev]\<rparr>"

definition runLifecycle :: "'u env \<Rightarrow> inst \<Rightarrow> 'u world \<Rightarrow> err option \<times> 'u world" where
  "runLifecycle E singleton w =
     (if isLifecycle E singleton then
        (case lcInit E singleton (user w) of
           (Some e, u') \<Rightarrow> (Some e, logEvent (EvInit singleton) (w\<lparr>user := u'\<rparr>))
         | (None, u') \<Rightarrow>
             (None, (logEvent (EvInit singleton) (w\<lparr>user := u'\<rparr>))
                      \<lparr>sc := (sc w)\<lparr>lifecycles := lifecycles (sc w) @ [singleton]\<rparr>\<rparr>))
      else (None, w))"

text \<open>\<open>for _, middleware := range sc.middlewares\<close>, stopping at the first error.\<close>

fun applyMiddlewares :: "'u middleware list \<Rightarrow> nat \<Rightarrow> gotype \<Rightarrow> inst \<Rightarrow> 'u world \<Rightarrow> (err + inst) \<times> 'u world" where
  "applyMiddlewares [] i key x w = (Inr x, w)"
| "applyMiddlewares (m # ms) i key x w =
     (case m key x (user w) of
        (Inl e, u') \<Rightarrow> (Inl e, logEvent (EvMiddleware i key x) (w\<lparr>user := u'\<rparr>))
      | (Inr y, u') \<Rightarrow> applyMiddlewares ms (Suc i) key y (logEvent (EvMiddleware i key x) (w\<lparr>user := u'\<rparr>)))"

fun cleanupLoop :: "'u env \<Rightarrow> inst list \<Rightarrow> err list \<Rightarrow> 'u world \<Rightarrow> err list \<times> 'u world" where
  "cleanupLoop E [] errs w = (errs, w)"
| "cleanupLoop E (x # xs) errs w =
     (case lcCleanup E x (user w) of
        (None, u') \<Rightarrow> cleanupLoop E xs errs (logEvent (EvCleanup x) (w\<lparr>user := u'\<rparr>))
      | (Some e, u') \<Rightarrow>
          cleanupLoop E xs (Add (Some (Errorf ''error during container cleanup: %w'' [AWrap e])) errs)
            (logEvent (EvCleanup x) (w\<lparr>user := u'\<rparr>)))"

text \<open>\<open>for i := len(sc.lifecycles) - 1; i >= 0; i--\<close>: the loop walks the reversed list.\<close>

definition Cleanup :: "'u env \<Rightarrow> 'u world \<Rightarrow> err option \<times> 'u world" where
  "Cleanup E w = (case cleanupLoop E (rev (lifecycles (sc w))) [] w of (errs, w') \<Rightarrow> (Errors errs, w'))"

subsection \<open>Nested resolution (container.go, processor_inject.go)\<close>

text \<open>
  \<open>ResolveByType\<close> returns \<open>(bool, any)\<close>; a panic below it passes through. \<open>None\<close> means
  that the nested factory did not return.
\<close>

definition ResolveByType :: "'u invoke \<Rightarrow> gotype \<Rightarrow> 'u world \<Rightarrow> ((bool \<times> inst) outcome \<times> 'u world) option" where
  "ResolveByType invoke t w =
     (case services (sc w) t of
        None \<Rightarrow> Some (Ok (False, Nil), w)
      | Some serviceMaps \<Rightarrow>
          (case serviceMaps '''' of
             None \<Rightarrow> Some (Ok (False, Nil), w)
           | Some service \<Rightarrow>
               (case (if IsSingleton service then lookupSingleton (singletons (sc w)) t '''' else None) of
                  Some singleton \<Rightarrow> Some (Ok (True, singleton), w)
                | None \<Rightarrow>
                    (case Factory service of
                       None \<Rightarrow> Some (Ok (False, Nil), w)
                     | Some fac \<Rightarrow>
                         (case invoke fac (logEvent (EvFactory t '''') w) of
                            None \<Rightarrow> None
                          | Some (Panic p, w1) \<Rightarrow> Some (Panic p, w1)
                          | Some (Error e, w1) \<Rightarrow> Some (Ok (False, Nil), w1)
                          | Some (Ok x, w1) \<Rightarrow> Some (Ok (True, x), w1))))))"

definition resolveByName :: "'u env \<Rightarrow> 'u invoke \<Rightarrow> gotype \<Rightarrow> string \<Rightarrow> 'u world \<Rightarrow> (inst outcome \<times> 'u world) option" where
  "resolveByName E invoke fieldType name w =
     (case services (sc w) fieldType of
        None \<Rightarrow> Some (Error (Errorf ''no service registered for type %s'' [AType fieldType]), w)
      | Some serviceMaps \<Rightarrow>
          (case serviceMaps name of
             None \<Rightarrow> Some (Error (Errorf ''no service registered for type %s with name %s'' [AType fieldType, AStr name]), w)
           | Some service \<Rightarrow>
               (case (if IsSingleton service then lookupSingleton (singletons (sc w)) fieldType name else None) of
                  Some singleton \<Rightarrow> Some (Ok singleton, w)
                | None \<Rightarrow>
                    (case Factory service of
                       None \<Rightarrow> Some (Error (Errorf ''no factory available for service %s with name %s'' [AType fieldType, AStr name]), w)
                     | Some fac \<Rightarrow>
                         (case invoke fac (logEvent (EvFactory fieldType name) w) of
                            None \<Rightarrow> None
                          | Some (Panic p, w1) \<Rightarrow> Some (Panic p, w1)
                          | Some (Error e, w1) \<Rightarrow>
                              Some (Error (Errorf ''failed to create service %s with name %s: %w'' [AType fieldType, AStr name, AWrap e]), w1)
                          | Some (Ok instance0, w1) \<Rightarrow>
                              (case applyMiddlewares (middlewares (sc w1)) 0 fieldType instance0 w1 of
                                 (Inl e, w2) \<Rightarrow>
                                   Some (Error (Errorf ''failed to process middleware for service %s with name %s: %w'' [AType fieldType, AStr name, AWrap e]), w2)
                               | (Inr instance, w2) \<Rightarrow>
                                   (case runLifecycle E instance w2 of
                                      (Some e, w3) \<Rightarrow>
                                        Some (Error (Errorf ''failed to run lifecycle for service %s with name %s: %w'' [AType fieldType, AStr name, AWrap e]), w3)
                                    | (None, w3) \<Rightarrow>
                                        Some (Ok instance,
                                              if IsSingleton service then cacheSingleton fieldType name instance w3 else w3))))))))"

text \<open>
  The service name of a tag value: \<open>strings.SplitN(value, ":", 2)\<close> has two parts exactly
  when the value contains a colon, and the second part is what follows the first colon.
\<close>

definition serviceNameOf :: "string \<Rightarrow> string" where
  "serviceNameOf v =
     (if CHR 0x3A \<in> set v then TrimSpace (tl (dropWhile (\<lambda>c. c \<noteq> CHR 0x3A) v)) else '''')"

text \<open>\<open>InjectTagProcessor.Process\<close>\<close>

definition processInject :: "'u env \<Rightarrow> 'u invoke \<Rightarrow> field \<Rightarrow> string \<Rightarrow> 'u world \<Rightarrow> (inst outcome \<times> 'u world) option" where
  "processInject E invoke f v w =
     (let serviceName = serviceNameOf v in
      if serviceName \<noteq> '''' then resolveByName E invoke (ftype f) serviceName w
      else
        (case ResolveByType invoke (ftype f) w of
           None \<Rightarrow> None
         | Some (Panic p, w1) \<Rightarrow> Some (Panic p, w1)
         | Some (Error e, w1) \<Rightarrow> Some (Error e, w1)
         | Some (Ok (ok, resolved), w1) \<Rightarrow>
             if \<not> ok then Some (Error (Errorf ''failed to inject type %s for field %s'' [AType (ftype f), AStr (fname f)]), w1)
             else Some (Ok resolved, w1)))"

fun Process :: "'u env \<Rightarrow> 'u invoke \<Rightarrow> 'u tagproc \<Rightarrow> field \<Rightarrow> string \<Rightarrow> 'u world \<Rightarrow> (inst outcome \<times> 'u world) option" where
  "Process E invoke InjectTagProcessor f v w = processInject E invoke f v w"
| "Process E invoke (CustomTagProcessor p can run) f v w =
     (case run f v (user w) of
        (Inl e, u') \<Rightarrow> Some (Error e, w\<lparr>user := u'\<rparr>)
      | (Inr x, u') \<Rightarrow> Some (Ok x, w\<lparr>user := u'\<rparr>))"

text \<open>\<open>TagProcessorManager.processField\<close>: the first processor that can process the value.\<close>

fun processField :: "'u env \<Rightarrow> 'u invoke \<Rightarrow> 'u tagproc list \<Rightarrow> field \<Rightarrow> string \<Rightarrow> 'u world \<Rightarrow> (inst outcome \<times> 'u world) option" where
  "processField E invoke [] f v w = Some (Error (Errorf ''no processor found for tag value: %s'' [AStr v]), w)"
| "processField E invoke (p # ps) f v w =
     (if CanProcess p v then Process E invoke p f v w else processField E invoke ps f v w)"

subsection \<open>The synthesized factories (tags.go, Register)\<close>

definition setField :: "nat \<Rightarrow> string \<Rightarrow> inst \<Rightarrow> 'u world \<Rightarrow> 'u world" where
  "setField a fld x w =
     w\<lparr>heap := (heap w)(a \<mapsto> (case heap w a of None \<Rightarrow> Map.empty(fld \<mapsto> x) | Some obj \<Rightarrow> obj(fld \<mapsto> x)))\<rparr>"

text \<open>\<open>reflect.New(t)\<close>: a fresh address holding a zero struct.\<close>

definition newStruct :: "'u world \<Rightarrow> nat \<times> 'u world" where
  "newStruct w = (nextAddr w, w\<lparr>heap := (heap w)(nextAddr w \<mapsto> Map.empty), nextAddr := Suc (nextAddr w)\<rparr>)"

text \<open>
  The field loop of \<open>createFabricTagFactory\<close>. \<open>fieldVal.Set\<close> panics when the resolved
  value is not assignable to the field.
\<close>

fun injectFields :: "'u env \<Rightarrow> 'u invoke \<Rightarrow> nat \<Rightarrow> field list \<Rightarrow> 'u world \<Rightarrow> (unit outcome \<times> 'u world) option" where
  "injectFields E invoke a [] w = Some (Ok (), w)"
| "injectFields E invoke a (f # fs) w =
     (if \<not> exported f then injectFields E invoke a fs w
      else if fabric f \<noteq> '''' then
        (case processField E invoke (tagProcessor (sc w)) f (fabric f) w of
           None \<Rightarrow> None
         | Some (Panic p, w1) \<Rightarrow> Some (Panic p, w1)
         | Some (Error e, w1) \<Rightarrow>
             Some (Error (Errorf ''failed to process fabric tag for field %s: %w'' [AStr (fname f), AWrap e]), w1)
         | Some (Ok resolved, w1) \<Rightarrow>
             if resolved \<noteq> Nil then
               (if assertType E resolved (ftype f)
                then injectFields E invoke a fs (setField a (fname f) resolved w1)
                else Some (Panic ''reflect.Set: value is not assignable to the field'', w1))
             else injectFields E invoke a fs w1)
      else injectFields E invoke a fs w)"

definition fabricTagFactory :: "'u env \<Rightarrow> 'u invoke \<Rightarrow> gotype \<Rightarrow> 'u world \<Rightarrow> (inst outcome \<times> 'u world) option" where
  "fabricTagFactory E invoke T w =
     (case typeOfZero T of
        None \<Rightarrow> Some (Error (Errorf ''fabric tags not defined'' []), w)
      | Some t \<Rightarrow>
          (case structFields (derefPtr t) of
             None \<Rightarrow> Some (Error (Errorf ''fabric tags can only be used with struct types, got %T'' [AType T]), w)
           | Some fs \<Rightarrow>
               (case newStruct w of
                  (a, w0) \<Rightarrow>
                    (case injectFields E invoke a fs w0 of
                       None \<Rightarrow> None
                     | Some (Panic p, w1) \<Rightarrow> Some (Panic p, w1)
                     | Some (Error e, w1) \<Rightarrow> Some (Error e, w1)
                     | Some (Ok u, w1) \<Rightarrow> Some (Ok (Ref (derefPtr t) a), w1)))))"

text \<open>The default factory of \<open>Register\<close>: a new struct behind a pointer type, else the zero value.\<close>

definition defaultFactory :: "gotype \<Rightarrow> 'u world \<Rightarrow> inst outcome \<times> 'u world" where
  "defaultFactory T w =
     (case typeOfZero T of
        Some (TPtr elemType) \<Rightarrow>
          (case structFields elemType of
             Some fs \<Rightarrow> (case newStruct w of (a, w0) \<Rightarrow> (Ok (Ref elemType a), w0))
           | None \<Rightarrow> (Ok (zeroValue T), w))
      | _ \<Rightarrow> (Ok (zeroValue T), w))"

text \<open>
  \<open>service.Factory(ctx, sc)\<close>. A struct whose fields depend on each other in a circle makes
  the Go code recurse without end; the fuel bounds the depth of nested factories, and
  \<open>None\<close> stands for a call that has not returned within it.
\<close>

fun runFactory :: "'u env \<Rightarrow> nat \<Rightarrow> 'u factory \<Rightarrow> 'u world \<Rightarrow> (inst outcome \<times> 'u world) option" where
  "runFactory E 0 fac w = None"
| "runFactory E (Suc n) (UserFactory g) w =
     (case g (user w) of
        (Inl e, u') \<Rightarrow> Some (Error e, w\<lparr>user := u'\<rparr>)
      | (Inr x, u') \<Rightarrow> Some (Ok x, w\<lparr>user := u'\<rparr>))"
| "runFactory E (Suc n) (InstanceFactory x) w = Some (Ok x, w)"
| "runFactory E (Suc n) (DefaultFactory T) w = Some (defaultFactory T w)"
| "runFactory E (Suc n) (FabricTagFactory T) w = fabricTagFactory E (runFactory E n) T w"

subsection \<open>container_resolve.go\<close>

text \<open>
  \<open>ResolveName[T]\<close>. The second look at the cache ("double mutex lock checking") reads the
  same maps as the first with nothing in between, so one lookup stands for both. The final
  \<open>singleton.(T)\<close> is the single-value form and panics when the middlewares have replaced
  the instance by one that is not a \<open>T\<close>.
\<close>

definition ResolveName :: "'u env \<Rightarrow> nat \<Rightarrow> gotype \<Rightarrow> string \<Rightarrow> 'u world \<Rightarrow> (inst outcome \<times> 'u world) option" where
  "ResolveName E n T name w =
     (case services (sc w) T of
        None \<Rightarrow> Some (Error (Errorf ''registration for %T not found'' [AType T]), w)
      | Some serviceMaps \<Rightarrow>
          (case serviceMaps name of
             None \<Rightarrow> Some (Error (Errorf ''registration for %T and name %s not found'' [AType T, AStr name]), w)
           | Some service \<Rightarrow>
               (case (if IsSingleton service then lookupSingleton (singletons (sc w)) T name else None) of
                  Some singleton \<Rightarrow>
                    if assertType E singleton T then Some (Ok singleton, w)
                    else Some (Error (Errorf ''failed to cast stored singleton to %T'' [AType T]), w)
                | None \<Rightarrow>
                    (case Factory service of
                       None \<Rightarrow> Some (Panic ''invalid memory address or nil pointer dereference'', w)
                     | Some fac \<Rightarrow>
                         (case runFactory E n fac (logEvent (EvFactory T name) w) of
                            None \<Rightarrow> None
                          | Some (Panic p, w1) \<Rightarrow> Some (Panic p, w1)
                          | Some (Error e, w1) \<Rightarrow> Some (Error e, w1)
                          | Some (Ok singleton0, w1) \<Rightarrow>
                              if \<not> assertType E singleton0 T
                              then Some (Error (Errorf ''failed to cast singleton to %T: %s'' [AType T]), w1)
                              else
                                (case applyMiddlewares (middlewares (sc w1)) 0 T singleton0 w1 of
                                   (Inl e, w2) \<Rightarrow>
                                     Some (Error (Errorf ''failed to process middleware during singleton creator of %T: %s'' [AType T, AErr e]), w2)
                                 | (Inr singleton, w2) \<Rightarrow>
                                     (case runLifecycle E singleton w2 of
                                        (Some e, w3) \<Rightarrow> Some (Error e, w3)
                                      | (None, w3) \<Rightarrow>
                                          (let w4 = (if IsSingleton service then cacheSingleton T name singleton w3 else w3)
                                           in if assertType E singleton T then Some (Ok singleton, w4)
                                              else Some (Panic ''interface conversion'', w4)))))))))"

definition Resolve :: "'u env \<Rightarrow> nat \<Rightarrow> gotype \<Rightarrow> 'u world \<Rightarrow> (inst outcome \<times> 'u world) option" where
  "Resolve E n T w = ResolveName E n T '''' w"

section \<open>Notions used in the statements\<close>

text \<open>\<open>sc.services[key][name]\<close> with both existence tests.\<close>

definition lookupService :: "(gotype \<rightharpoonup> (string \<rightharpoonup> 'u registration)) \<Rightarrow> gotype \<Rightarrow> string \<Rightarrow> 'u registration option" where
  "lookupService svcs key name = (case svcs key of None \<Rightarrow> None | Some serviceMaps \<Rightarrow> serviceMaps name)"

text \<open>
  What each \<open>Cleanup\<close> call returns when the instances are cleaned up in the given order,
  the user state being passed from one call to the next.
\<close>

fun cleanupResults :: "'u env \<Rightarrow> inst list \<Rightarrow> 'u \<Rightarrow> err option list" where
  "cleanupResults E [] u = []"
| "cleanupResults E (x # xs) u = (case lcCleanup E x u of (r, u') \<Rightarrow> r # cleanupResults E xs u')"

definition wrapCleanup :: "err \<Rightarrow> err" where
  "wrapCleanup e = Errorf ''error during container cleanup: %w'' [AWrap e]"

text \<open>A registration option that fails with the given error (a user-written option).\<close>

definition failWith :: "err \<Rightarrow> 'u RegistrationOption" where
  "failWith e rs = (Some e, rs)"

text \<open>The errors that an error reports: itself and what it wraps or joins.\<close>

fun unwrapAll :: "err \<Rightarrow> err list" and unwrapArg :: "arg \<Rightarrow> err list" where
  "unwrapAll (Err s) = [Err s]"
| "unwrapAll (Errorf f as) = Errorf f as # concat (map unwrapArg as)"
| "unwrapAll (Join es) = Join es # concat (map unwrapAll es)"
| "unwrapArg (AType t) = []"
| "unwrapArg (AStr s) = []"
| "unwrapArg (AErr e) = []"
| "unwrapArg (AWrap e) = unwrapAll e"

text \<open>The options that service.go offers, as data, and the option each one stands for.\<close>

datatype 'u optionSpec =
    OAsSingleton
  | OAsFactory "'u \<Rightarrow> (err + inst) \<times> 'u"
  | OWithInstance inst
  | OWith gotype
  | OWithName gotype string

fun optionOf :: "'u optionSpec \<Rightarrow> 'u RegistrationOption" where
  "optionOf OAsSingleton = AsSingleton"
| "optionOf (OAsFactory g) = AsFactory g"
| "optionOf (OWithInstance x) = WithInstance x"
| "optionOf (OWith I) = With I"
| "optionOf (OWithName I n) = WithName I n"

text \<open>An interface mapping list declares a capability type under a name.\<close>

definition declares :: "(gotype \<times> string list) list \<Rightarrow> gotype \<Rightarrow> string \<Rightarrow> bool" where
  "declares ifs k n = (\<exists>ns. (k, ns) \<in> set ifs \<and> n \<in> set ns)"

subsection \<open>The program of the package's test (TestFabricTagsInjection)\<close>

definition LoggerEngine :: gotype where "LoggerEngine = TIface ''LoggerEngine''"
definition LoggerService :: gotype where "LoggerService = TStruct ''LoggerService'' []"
definition EncryptEngine :: gotype where "EncryptEngine = TIface ''EncryptEngine''"
definition EncryptService :: gotype where "EncryptService = TStruct ''EncryptService'' []"

definition Agent :: gotype where
  "Agent = TStruct ''Agent''
     [Field ''Logger'' LoggerEngine ''inject'' True, Field ''Encrypt'' EncryptEngine ''inject'' True]"

text \<open>The method sets of the test: each service implements its engine; nothing has a lifecycle.\<close>

definition testEnv :: "unit env" where
  "testEnv =
     \<lparr>implements = (\<lambda>d i. (d = TPtr LoggerService \<and> i = LoggerEngine) \<or> (d = TPtr EncryptService \<and> i = EncryptEngine)),
      isLifecycle = (\<lambda>x. False),
      lcInit = (\<lambda>x u. (None, u)),
      lcCleanup = (\<lambda>x u. (None, u))\<rparr>"

definition loggerOptions :: "unit optionSpec list" where
  "loggerOptions = [OWith LoggerEngine, OWithName LoggerEngine ''console'', OAsSingleton]"

fun chainInputs :: "'u middleware list \<Rightarrow> gotype \<Rightarrow> inst \<Rightarrow> 'u \<Rightarrow> inst list" where
  "chainInputs [] key x u = []"
| "chainInputs (m # ms) key x u =
     x # (case m key x u of (Inl e, u') \<Rightarrow> [] | (Inr y, u') \<Rightarrow> chainInputs ms key y u')"

fun chainResult :: "'u middleware list \<Rightarrow> gotype \<Rightarrow> inst \<Rightarrow> 'u \<Rightarrow> err + inst" where
  "chainResult [] key x u = Inr x"
| "chainResult (m # ms) key x u =
     (case m key x u of (Inl e, u') \<Rightarrow> Inl e | (Inr y, u') \<Rightarrow> chainResult ms key y u')"

fun chainEvents :: "nat \<Rightarrow> gotype \<Rightarrow> inst list \<Rightarrow> event list" where
  "chainEvents i key [] = []"
| "chainEvents i key (x # xs) = EvMiddleware i key x # chainEvents (Suc i) key xs"

definition idMiddleware :: "unit middleware" where
  "idMiddleware key x u = (Inr x, u)"

definition rejectMiddleware :: "unit middleware" where
  "rejectMiddleware key x u = (Inl (Err ''rejected''), u)"

definition loggerRegistration :: "unit registration" where
  "loggerRegistration =
     \<lparr>Name = '''', IsSingleton = False, Factory = Some (DefaultFactory (TPtr LoggerService)),
      Interfaces = [(LoggerEngine, [''''])]\<rparr>"

definition mwWorld :: "unit world" where
  "mwWorld = AddMiddleware [idMiddleware, rejectMiddleware]
               (snd (Register (TPtr LoggerService) [With LoggerEngine] (newWorld ())))"

section \<open>Teardown\<close>

lemma cleanupLoop_errs:
  "fst (cleanupLoop E xs errs w) = errs @ map wrapCleanup (List.map_filter id (cleanupResults E xs (user w)))"
  by (induction xs arbitrary: errs w)
     (auto simp: List.map_filter_simps logEvent_def wrapCleanup_def split: prod.splits option.splits)

lemma cleanupLoop_trace:
  "trace (snd (cleanupLoop E xs errs w)) = trace w @ map EvCleanup xs"
  by (induction xs arbitrary: errs w) (auto simp: logEvent_def split: prod.splits option.splits)

text \<open>
  Claim C4. Container \<open>Cleanup\<close> calls \<open>Cleanup\<close> on every tracked lifecycle instance, in the
  exact reverse of the order in which they were appended; a failing call does not stop the
  loop; and the result is nil when no call failed, otherwise the join of all the (wrapped)
  errors, in the order in which they occurred.
\<close>

theorem Cleanup_reverse_order_all_errors:
  "trace (snd (Cleanup E w)) = trace w @ map EvCleanup (rev (lifecycles (sc w))) \<and>
   fst (Cleanup E w) =
     (let failed = List.map_filter id (cleanupResults E (rev (lifecycles (sc w))) (user w))
      in if failed = [] then None else Some (Join (map wrapCleanup failed)))"
  using cleanupLoop_errs[of E "rev (lifecycles (sc w))" "[]" w]
        cleanupLoop_trace[of E "rev (lifecycles (sc w))" "[]" w]
  by (auto simp: Cleanup_def Errors_def Let_def split: prod.splits)

section \<open>Registration options\<close>

lemma applyOptions_append:
  "applyOptions (pre @ rest) r = (case applyOptions pre r of Inl e \<Rightarrow> Inl e | Inr r' \<Rightarrow> applyOptions rest r')"
  by (induction pre arbitrary: r) (auto split: prod.splits option.splits sum.splits)

text \<open>
  Claim C10, as stated, fails: with two failing options \<open>Register\<close> returns an error that
  wraps the first option's error only; the second option is never applied.
\<close>

theorem Register_two_failing_options_counterexample:
  "fst (Register (TBasic ''int'') [failWith (Err ''first''), failWith (Err ''second'')] (newWorld ()))
     = Error (Errorf ''failed to complete registration: %w'' [AWrap (Err ''first'')]) \<and>
   Err ''second'' \<notin> set (unwrapAll (Errorf ''failed to complete registration: %w'' [AWrap (Err ''first'')]))"
  by (simp add: Register_def failWith_def)

text \<open>
  Claim C10, amended. Options are applied in call order; at the first option that fails,
  \<open>Register\<close> aborts with an error wrapping that option's error, whatever the later options
  would do, and leaves the container as it was.
\<close>

theorem Register_aborts_at_first_failing_option:
  assumes "applyOptions pre defaultRegistrationOptions = Inr rs" and "fst (opt rs) = Some e"
  shows "Register T (pre @ opt # post) w = (Error (Errorf ''failed to complete registration: %w'' [AWrap e]), w)"
proof -
  have "applyOptions (opt # post) rs = Inl (Errorf ''failed to complete registration: %w'' [AWrap e])"
    using assms(2) by (cases "opt rs") auto
  then have "applyOptions (pre @ opt # post) defaultRegistrationOptions
               = Inl (Errorf ''failed to complete registration: %w'' [AWrap e])"
    using assms(1) by (simp add: applyOptions_append)
  then show ?thesis by (simp add: Register_def)
qed

theorem Register_aborts_at_first_failing_option_witness:
  "Register (TBasic ''int'') ([AsSingleton] @ failWith (Err ''first'') # [failWith (Err ''second'')]) (newWorld ())
     = (Error (Errorf ''failed to complete registration: %w'' [AWrap (Err ''first'')]), newWorld ())"
  using Register_aborts_at_first_failing_option[of "[AsSingleton]" "defaultRegistrationOptions\<lparr>IsSingleton := True\<rparr>"
      "failWith (Err ''first'')" "Err ''first''" "TBasic ''int''" "[failWith (Err ''second'')]" "newWorld ()"]
  by (simp add: AsSingleton_def failWith_def)

section \<open>Capability mappings\<close>

lemma lookupService_storeService:
  "lookupService (storeService k n reg svcs) k' n' =
     (if k' = k \<and> n' = n then Some reg else lookupService svcs k' n')"
  by (auto simp: lookupService_def storeService_def split: option.splits)

lemma lookupService_storeNames:
  "lookupService (storeNames k ns reg svcs) k' n' =
     (if k' = k \<and> n' \<in> set ns then Some reg else lookupService svcs k' n')"
  by (induction ns arbitrary: svcs) (auto simp: lookupService_storeService)

lemma lookupService_ensure:
  "lookupService (case svcs k of None \<Rightarrow> svcs(k \<mapsto> Map.empty) | Some m \<Rightarrow> svcs) k' n' = lookupService svcs k' n'"
  by (auto simp: lookupService_def split: option.splits)

lemma lookupService_storeInterfaces:
  "lookupService (storeInterfaces ifs reg svcs) k n =
     (if declares ifs k n then Some reg else lookupService svcs k n)"
  unfolding declares_def
  by (induction ifs arbitrary: svcs)
     (auto simp: lookupService_storeNames lookupService_ensure)

lemma declares_Nil: "declares [] k n = False"
  by (simp add: declares_def)

lemma declares_Cons: "declares ((k', ns) # ifs) k n = ((k = k' \<and> n \<in> set ns) \<or> declares ifs k n)"
  by (auto simp: declares_def)

lemma declares_append: "declares (xs @ ys) k n = (declares xs k n \<or> declares ys k n)"
  by (auto simp: declares_def)

lemma declares_map_append:
  "declares (map (\<lambda>(k, v). if k = I then (k, v @ [m]) else (k, v)) ifs) k n =
     (declares ifs k n \<or> (k = I \<and> n = m \<and> I \<in> fst ` set ifs))"
proof (induction ifs)
  case Nil
  then show ?case by (simp add: declares_Nil)
next
  case (Cons a ifs)
  obtain k' v where a: "a = (k', v)" by (cases a)
  show ?case using Cons by (simp add: a declares_Cons) blast
qed

lemma declares_appendName:
  "declares (appendName I m ifs) k n = (declares ifs k n \<or> (k = I \<and> n = m))"
proof (cases "map_of ifs I")
  case None
  then show ?thesis by (simp add: appendName_def declares_append declares_Cons declares_Nil)
next
  case (Some ns0)
  then have "I \<in> fst ` set ifs" by (metis domI dom_map_of_conv_image_fst)
  then show ?thesis using Some by (simp add: appendName_def declares_map_append)
qed

lemma applyOptions_builtin:
  "\<exists>r'. applyOptions (map optionOf os) r = Inr r' \<and> Name r' = Name r \<and>
        (\<forall>k n. declares (Interfaces r') k n =
                (declares (Interfaces r) k n \<or> (n = '''' \<and> OWith k \<in> set os) \<or> OWithName k n \<in> set os))"
proof (induction os arbitrary: r)
  case Nil
  then show ?case by simp
next
  case (Cons a os)
  show ?case
  proof (cases a)
    case OAsSingleton
    then show ?thesis using Cons[of "r\<lparr>IsSingleton := True\<rparr>"] by (auto simp: AsSingleton_def)
  next
    case (OAsFactory g)
    then show ?thesis using Cons[of "r\<lparr>Factory := Some (UserFactory g)\<rparr>"] by (auto simp: AsFactory_def)
  next
    case (OWithInstance x)
    then show ?thesis using Cons[of "r\<lparr>Factory := Some (InstanceFactory x)\<rparr>"] by (auto simp: WithInstance_def)
  next
    case (OWith I)
    then show ?thesis using Cons[of "r\<lparr>Interfaces := appendName I '''' (Interfaces r)\<rparr>"]
      by (auto simp: With_def declares_appendName)
  next
    case (OWithName I m)
    then show ?thesis using Cons[of "r\<lparr>Interfaces := appendName I m (Interfaces r)\<rparr>"]
      by (auto simp: WithName_def declares_appendName)
  qed
qed

lemma ResolveName_Ok_assertType:
  "ResolveName E k I n w1 = Some (Ok x, w2) \<Longrightarrow> assertType E x I"
  unfolding ResolveName_def
  by (simp add: Let_def split: option.splits if_splits outcome.splits sum.splits prod.splits)

text \<open>
  Claim C7. After a successful \<open>Register[T]\<close> whose options are those of service.go, one and
  the same registration is stored under the concrete type with the empty name, under every
  capability type given by \<open>With\<close> with the empty name, and under every capability type and
  name given by \<open>WithName\<close>; and whenever \<open>ResolveName\<close> for a capability type returns an
  instance, that instance satisfies the capability (the type assertion has succeeded).
\<close>

theorem Register_capabilities_resolvable:
  assumes "Register T (map optionOf os) w = (Ok (), w')"
  shows "\<exists>reg. lookupService (services (sc w')) T '''' = Some reg \<and>
           (\<forall>I. OWith I \<in> set os \<longrightarrow> lookupService (services (sc w')) I '''' = Some reg) \<and>
           (\<forall>I n. OWithName I n \<in> set os \<longrightarrow> lookupService (services (sc w')) I n = Some reg) \<and>
           (\<forall>I n k x w1 w2. ResolveName E k I n w1 = Some (Ok x, w2) \<longrightarrow> assertType E x I)"
proof -
  obtain r' where r': "applyOptions (map optionOf os) defaultRegistrationOptions = Inr r'"
      "Name r' = ''''"
      "\<And>k n. declares (Interfaces r') k n = ((n = '''' \<and> OWith k \<in> set os) \<or> OWithName k n \<in> set os)"
    using applyOptions_builtin[of os "defaultRegistrationOptions"]
    by (auto simp: defaultRegistrationOptions_def declares_def)
  from assms r'(1) obtain f where f: "chooseFactory T (tagProcessor (sc w)) r' = Ok f"
    and w': "w' = w\<lparr>sc := (sc w)\<lparr>services := storeInterfaces (Interfaces r') (r'\<lparr>Factory := Some f\<rparr>)
                     (storeService T '''' (r'\<lparr>Factory := Some f\<rparr>) (services (sc w)))\<rparr>\<rparr>"
    using r'(2) by (auto simp: Register_def Let_def split: outcome.splits)
  let ?reg = "r'\<lparr>Factory := Some f\<rparr>"
  have look: "\<And>k n. lookupService (services (sc w')) k n =
        (if declares (Interfaces r') k n then Some ?reg
         else if k = T \<and> n = '''' then Some ?reg else lookupService (services (sc w)) k n)"
    by (simp add: w' lookupService_storeInterfaces lookupService_storeService)
  have "lookupService (services (sc w')) T '''' = Some ?reg"
    by (simp add: look)
  moreover have "\<forall>I. OWith I \<in> set os \<longrightarrow> lookupService (services (sc w')) I '''' = Some ?reg"
    by (simp add: look r'(3))
  moreover have "\<forall>I n. OWithName I n \<in> set os \<longrightarrow> lookupService (services (sc w')) I n = Some ?reg"
    by (simp add: look r'(3))
  moreover have "\<forall>I n k x w1 w2. ResolveName E k I n w1 = Some (Ok x, w2) \<longrightarrow> assertType E x I"
    using ResolveName_Ok_assertType[of E] by blast
  ultimately show ?thesis by blast
qed

lemma Register_logger_ok:
  "fst (Register (TPtr LoggerService) (map optionOf loggerOptions) (newWorld ())) = Ok ()"
  by (simp add: Register_def loggerOptions_def With_def WithName_def AsSingleton_def appendName_def
      defaultRegistrationOptions_def chooseFactory_def hasFabricTags_def LoggerService_def Let_def)

theorem Register_capabilities_resolvable_witness:
  "fst (Register (TPtr LoggerService) (map optionOf loggerOptions) (newWorld ())) = Ok () \<and>
   (\<exists>reg. lookupService (services (sc (snd (Register (TPtr LoggerService) (map optionOf loggerOptions) (newWorld ()))))) (TPtr LoggerService) '''' = Some reg \<and>
          lookupService (services (sc (snd (Register (TPtr LoggerService) (map optionOf loggerOptions) (newWorld ()))))) LoggerEngine '''' = Some reg \<and>
          lookupService (services (sc (snd (Register (TPtr LoggerService) (map optionOf loggerOptions) (newWorld ()))))) LoggerEngine ''console'' = Some reg)"
proof -
  let ?R = "Register (TPtr LoggerService) (map optionOf loggerOptions) (newWorld ())"
  have ok: "?R = (Ok (), snd ?R)"
    using Register_logger_ok by (cases ?R) simp
  have m: "OWith LoggerEngine \<in> set loggerOptions" "OWithName LoggerEngine ''console'' \<in> set loggerOptions"
    by (simp_all add: loggerOptions_def)
  show ?thesis
    using Register_capabilities_resolvable[OF ok, of testEnv] m Register_logger_ok by blast
qed

lemma chainEvents_no_Init: "EvInit x \<notin> set (chainEvents i key ins)"
  by (induction ins arbitrary: i) auto

lemma applyMiddlewares_result:
  "fst (applyMiddlewares ms i key x w) = chainResult ms key x (user w)"
  by (induction ms arbitrary: i x w) (auto simp: logEvent_def split: prod.splits sum.splits)

lemma applyMiddlewares_trace:
  "trace (snd (applyMiddlewares ms i key x w)) = trace w @ chainEvents i key (chainInputs ms key x (user w))"
  by (induction ms arbitrary: i x w)
     (auto simp: logEvent_def split: prod.splits sum.splits)

lemma applyMiddlewares_sc:
  "sc (snd (applyMiddlewares ms i key x w)) = sc w"
  by (induction ms arbitrary: i x w) (auto simp: logEvent_def split: prod.splits sum.splits)

lemma applyMiddlewares_heap:
  "nextAddr (snd (applyMiddlewares ms i key x w)) = nextAddr w"
  by (induction ms arbitrary: i x w) (auto simp: logEvent_def split: prod.splits sum.splits)

lemma chain_all_applied:
  "chainResult ms key x u = Inr y \<Longrightarrow> length (chainInputs ms key x u) = length ms"
  by (induction ms arbitrary: x u) (auto split: prod.splits sum.splits)

lemma runLifecycle_cases:
  "runLifecycle E x w = (r, w') \<Longrightarrow>
     trace w' = trace w @ (if isLifecycle E x then [EvInit x] else []) \<and>
     (r \<noteq> None \<longrightarrow> sc w' = sc w) \<and>
     singletons (sc w') = singletons (sc w) \<and> services (sc w') = services (sc w) \<and>
     middlewares (sc w') = middlewares (sc w) \<and> tagProcessor (sc w') = tagProcessor (sc w) \<and>
     nextAddr w' = nextAddr w"
  by (auto simp: runLifecycle_def logEvent_def split: if_splits prod.splits option.splits)

theorem ResolveName_middleware_chain:
  assumes found: "services (sc w) T = Some serviceMaps" "serviceMaps name = Some service"
    and miss: "(if IsSingleton service then lookupSingleton (singletons (sc w)) T name else None) = None"
    and fac: "Factory service = Some fac"
             "runFactory E n fac (logEvent (EvFactory T name) w) = Some (Ok x0, w1)"
             "assertType E x0 T"
  shows "\<exists>r w'. ResolveName E n T name w = Some (r, w') \<and>
           (case chainResult (middlewares (sc w1)) T x0 (user w1) of
              Inl e \<Rightarrow>
                r = Error (Errorf ''failed to process middleware during singleton creator of %T: %s'' [AType T, AErr e]) \<and>
                trace w' = trace w1 @ chainEvents 0 T (chainInputs (middlewares (sc w1)) T x0 (user w1)) \<and>
                EvInit x0 \<notin> set (chainEvents 0 T (chainInputs (middlewares (sc w1)) T x0 (user w1))) \<and>
                lifecycles (sc w') = lifecycles (sc w1)
            | Inr y \<Rightarrow>
                length (chainInputs (middlewares (sc w1)) T x0 (user w1)) = length (middlewares (sc w1)) \<and>
                trace w' = trace w1 @ chainEvents 0 T (chainInputs (middlewares (sc w1)) T x0 (user w1))
                             @ (if isLifecycle E y then [EvInit y] else []) \<and>
                (\<forall>z. r = Ok z \<longrightarrow> z = y))"
proof -
  let ?ms = "middlewares (sc w1)"
  obtain mr w2 where am: "applyMiddlewares ?ms 0 T x0 w1 = (mr, w2)" by (cases "applyMiddlewares ?ms 0 T x0 w1")
  have mr: "mr = chainResult ?ms T x0 (user w1)"
    using applyMiddlewares_result[of ?ms 0 T x0 w1] am by simp
  have tr2: "trace w2 = trace w1 @ chainEvents 0 T (chainInputs ?ms T x0 (user w1))"
    using applyMiddlewares_trace[of ?ms 0 T x0 w1] am by simp
  have sc2: "sc w2 = sc w1"
    using applyMiddlewares_sc[of ?ms 0 T x0 w1] am by simp
  show ?thesis
  proof (cases mr)
    case (Inl e)
    have "ResolveName E n T name w = Some (Error (Errorf ''failed to process middleware during singleton creator of %T: %s'' [AType T, AErr e]), w2)"
      using found miss fac am Inl by (simp add: ResolveName_def)
    moreover have "EvInit x0 \<notin> set (chainEvents 0 T (chainInputs ?ms T x0 (user w1)))"
      by (rule chainEvents_no_Init)
    ultimately show ?thesis using Inl mr tr2 sc2 by (auto split: sum.splits)
  next
    case (Inr y)
    obtain lr w3 where rl: "runLifecycle E y w2 = (lr, w3)" by (cases "runLifecycle E y w2")
    have tr3: "trace w3 = trace w2 @ (if isLifecycle E y then [EvInit y] else [])"
      using runLifecycle_cases[OF rl] by simp
    have len: "length (chainInputs ?ms T x0 (user w1)) = length ?ms"
      using chain_all_applied[of ?ms T x0 "user w1" y] Inr mr by simp
    have "\<exists>r w'. ResolveName E n T name w = Some (r, w') \<and> trace w' = trace w3 \<and> (\<forall>z. r = Ok z \<longrightarrow> z = y)"
      using found miss fac am Inr rl
      by (cases lr) (auto simp: ResolveName_def Let_def cacheSingleton_def)
    then show ?thesis using Inr mr tr2 tr3 len by (auto split: sum.splits)
  qed
qed

lemma mwWorld_eq:
  "mwWorld = \<lparr>sc = \<lparr>services = [TPtr LoggerService \<mapsto> [[] \<mapsto> loggerRegistration], LoggerEngine \<mapsto> [[] \<mapsto> loggerRegistration]],
                    singletons = Map.empty, lifecycles = [], middlewares = [idMiddleware, rejectMiddleware],
                    tagProcessor = [InjectTagProcessor]\<rparr>,
              heap = Map.empty, nextAddr = 0, user = (), trace = []\<rparr>"
  by (simp add: mwWorld_def AddMiddleware_def Register_def With_def appendName_def newWorld_def
      NewServiceContainer_def defaultRegistrationOptions_def chooseFactory_def hasFabricTags_def
      LoggerService_def LoggerEngine_def Let_def storeService_def loggerRegistration_def)

theorem ResolveName_middleware_chain_witness:
  "\<exists>w'. ResolveName testEnv 1 LoggerEngine '''' mwWorld =
           Some (Error (Errorf ''failed to process middleware during singleton creator of %T: %s''
                          [AType LoggerEngine, AErr (Err ''rejected'')]), w') \<and>
         trace w' = [EvFactory LoggerEngine '''', EvMiddleware 0 LoggerEngine (Ref LoggerService 0),
                     EvMiddleware 1 LoggerEngine (Ref LoggerService 0)] \<and>
         lifecycles (sc w') = []"
proof -
  let ?w1 = "mwWorld\<lparr>heap := [0 \<mapsto> Map.empty], nextAddr := Suc 0, trace := [EvFactory LoggerEngine []]\<rparr>"
  have h1: "services (sc mwWorld) LoggerEngine = Some [[] \<mapsto> loggerRegistration]"
    by (simp add: mwWorld_eq LoggerEngine_def LoggerService_def)
  have h2: "[[] \<mapsto> loggerRegistration] [] = Some loggerRegistration" by simp
  have h3: "(if IsSingleton loggerRegistration then lookupSingleton (singletons (sc mwWorld)) LoggerEngine [] else None) = None"
    by (simp add: loggerRegistration_def)
  have h4: "Factory loggerRegistration = Some (DefaultFactory (TPtr LoggerService))"
    by (simp add: loggerRegistration_def)
  have h5: "runFactory testEnv 1 (DefaultFactory (TPtr LoggerService)) (logEvent (EvFactory LoggerEngine []) mwWorld)
              = Some (Ok (Ref LoggerService 0), ?w1)"
    by (simp add: defaultFactory_def LoggerService_def newStruct_def logEvent_def mwWorld_eq)
  have h6: "assertType testEnv (Ref LoggerService 0) LoggerEngine"
    by (simp add: assertType_def testEnv_def LoggerEngine_def)
  have cr: "chainResult (middlewares (sc ?w1)) LoggerEngine (Ref LoggerService 0) (user ?w1) = Inl (Err ''rejected'')"
    by (simp add: mwWorld_eq idMiddleware_def rejectMiddleware_def)
  have ci: "chainInputs (middlewares (sc ?w1)) LoggerEngine (Ref LoggerService 0) (user ?w1)
              = [Ref LoggerService 0, Ref LoggerService 0]"
    by (simp add: mwWorld_eq idMiddleware_def rejectMiddleware_def)
  have lc: "lifecycles (sc ?w1) = []" "trace ?w1 = [EvFactory LoggerEngine []]"
    by (simp_all add: mwWorld_eq)
  from ResolveName_middleware_chain[OF h1 h2 h3 h4 h5 h6]
  show ?thesis unfolding cr ci lc by auto
qed

end
